theory Spec2Isabelle
  imports Main "HOL-Library.Word"
begin

section \<open>MyUniquePtr: an exclusive-ownership pointer\<close>

text \<open>
  A shallow embedding of \<^verbatim>\<open>src/MyUnique_ptr/MyUnique_ptr.cpp\<close>.

  \<^item> A raw pointer \<^verbatim>\<open>T*\<close> is either \<^verbatim>\<open>nullptr\<close> or the address of an allocation.
  \<^item> The free store maps addresses to what \<^verbatim>\<open>new\<close> (one object) or \<^verbatim>\<open>new[]\<close>
    (a block) put there, and logs every \<^verbatim>\<open>delete\<close> and \<^verbatim>\<open>delete[]\<close> that runs.
  \<^item> Owner objects live in a store indexed by their own address, so that
    \<^verbatim>\<open>this != &other\<close> is a comparison of store indices.
  \<^item> The template parameter \<^verbatim>\<open>Deleter\<close> is the type variable \<open>'d\<close>; what
    \<^verbatim>\<open>deleter(ptr)\<close> does is the parameter \<open>call\<close> of every operation that can
    release. A deleter reads the whole program state and returns the new free store.
  \<^item> Every call \<^verbatim>\<open>deleter(ptr)\<close> is appended to the log \<open>calls\<close>.
  \<^item> When the object released stores owners of its own, its destructor destroys
    them: the operations named \<open>_nested\<close>, and the move assignment, take a release
    that returns the whole state (or \<open>None\<close>, when the nesting is deeper than the
    bound it was given).
\<close>

subsection \<open>Raw pointers and the free store\<close>

datatype pointer = nullptr | Addr nat

datatype 'v block = Single 'v | Block "'v list"

datatype release_action = Delete nat | DeleteArray nat

datatype bad_alloc = bad_alloc

record 'v memory =
  cells :: "nat \<rightharpoonup> 'v block"
  brk :: nat
  avail :: nat
  freed :: "release_action list"
  ub :: bool

text \<open>\<^verbatim>\<open>new T(args...)\<close>: one object, or \<^verbatim>\<open>std::bad_alloc\<close> when no memory is left.\<close>

definition operator_new :: "'v \<Rightarrow> 'v memory \<Rightarrow> bad_alloc + pointer \<times> 'v memory" where
  "operator_new v m =
     (if avail m < 1 then Inl bad_alloc
      else Inr (Addr (brk m),
                m\<lparr>cells := (cells m)(brk m \<mapsto> Single v),
                  brk := brk m + 1,
                  avail := avail m - 1\<rparr>))"

text \<open>
  \<^verbatim>\<open>delete ptr\<close>: nothing on \<^verbatim>\<open>nullptr\<close>; frees a live single object; anything else
  (a block, a dead address) is undefined behaviour, recorded in \<open>ub\<close>.
\<close>

definition delete_expr :: "pointer \<Rightarrow> 'v memory \<Rightarrow> 'v memory" where
  "delete_expr p m =
     (case p of
        nullptr \<Rightarrow> m
      | Addr a \<Rightarrow>
          (case cells m a of
             Some (Single v) \<Rightarrow>
               m\<lparr>cells := (cells m)(a := None), avail := avail m + 1,
                 freed := freed m @ [Delete a]\<rparr>
           | _ \<Rightarrow> m\<lparr>freed := freed m @ [Delete a], ub := True\<rparr>))"

text \<open>\<^verbatim>\<open>delete[] ptr\<close>: the same for a block.\<close>

definition delete_array_expr :: "pointer \<Rightarrow> 'v memory \<Rightarrow> 'v memory" where
  "delete_array_expr p m =
     (case p of
        nullptr \<Rightarrow> m
      | Addr a \<Rightarrow>
          (case cells m a of
             Some (Block xs) \<Rightarrow>
               m\<lparr>cells := (cells m)(a := None), avail := avail m + length xs,
                 freed := freed m @ [DeleteArray a]\<rparr>
           | _ \<Rightarrow> m\<lparr>freed := freed m @ [DeleteArray a], ub := True\<rparr>))"

text \<open>The built-in \<^verbatim>\<open>*p\<close>; \<open>None\<close> is undefined behaviour.\<close>

definition indirection :: "pointer \<Rightarrow> 'v memory \<Rightarrow> 'v option" where
  "indirection p m =
     (case p of
        nullptr \<Rightarrow> None
      | Addr a \<Rightarrow>
          (case cells m a of
             Some (Single v) \<Rightarrow> Some v
           | Some (Block (x # xs)) \<Rightarrow> Some x
           | _ \<Rightarrow> None))"

subsection \<open>The owner and the program state\<close>

record 'd MyUniquePtr =
  ptr :: pointer
  deleter :: 'd

record ('d, 'v) state =
  owners :: "nat \<Rightarrow> 'd MyUniquePtr"
  mem :: "'v memory"
  calls :: "('d \<times> pointer) list"

type_synonym ('d, 'v) call = "'d \<Rightarrow> pointer \<Rightarrow> ('d, 'v) state \<Rightarrow> 'v memory"

text \<open>The assignments \<^verbatim>\<open>x.ptr = p\<close> and \<^verbatim>\<open>x.deleter = d\<close> on the owner at \<open>x\<close>.\<close>

definition set_ptr :: "nat \<Rightarrow> pointer \<Rightarrow> ('d, 'v) state \<Rightarrow> ('d, 'v) state" where
  "set_ptr x p s = s\<lparr>owners := (owners s)(x := (owners s x)\<lparr>ptr := p\<rparr>)\<rparr>"

definition set_deleter :: "nat \<Rightarrow> 'd \<Rightarrow> ('d, 'v) state \<Rightarrow> ('d, 'v) state" where
  "set_deleter x d s = s\<lparr>owners := (owners s)(x := (owners s x)\<lparr>deleter := d\<rparr>)\<rparr>"

text \<open>The call \<^verbatim>\<open>deleter(ptr)\<close>: the deleter runs on the current state, and is logged.\<close>

definition invoke :: "('d, 'v) call \<Rightarrow> 'd \<Rightarrow> pointer \<Rightarrow> ('d, 'v) state \<Rightarrow> ('d, 'v) state" where
  "invoke call d p s = s\<lparr>mem := call d p s, calls := calls s @ [(d, p)]\<rparr>"

subsection \<open>The default deleters\<close>

text \<open>
  \<^verbatim>\<open>DefaultDeleter<T>\<close> and its specialisation \<^verbatim>\<open>DefaultDeleter<T[]>\<close> are two
  stateless types; an owner's type fixes which one it stores. The specialisation takes
  a pointer to the element type, so it is the deleter of an owner of type
  \<^verbatim>\<open>MyUniquePtr<T, DefaultDeleter<T[]>>\<close>. The class has no specialisation for
  \<^verbatim>\<open>T[]\<close>: in \<^verbatim>\<open>MyUniquePtr<T[]>\<close>, which the array overload of \<^verbatim>\<open>make_unique\<close>
  (lines 112-115) returns, the member \<^verbatim>\<open>T* ptr\<close> is a pointer to an array, which
  neither the pointer from \<^verbatim>\<open>new T[size]()\<close> nor the parameter of this deleter
  matches. That instantiation is ill-formed and has no run-time behaviour to embed.
\<close>

datatype DefaultDeleter = DefaultDeleter

datatype DefaultDeleter_array = DefaultDeleter_array

definition DefaultDeleter_call :: "(DefaultDeleter, 'v) call" where
  "DefaultDeleter_call d p s = delete_expr p (mem s)"

definition DefaultDeleter_array_call :: "(DefaultDeleter_array, 'v) call" where
  "DefaultDeleter_array_call d p s = delete_array_expr p (mem s)"

subsection \<open>Constructors\<close>

text \<open>
  Each constructor builds the owner at the address \<open>this\<close>. \<open>d0\<close> is the
  default-initialised \<^verbatim>\<open>Deleter\<close>, for the constructors that do not name one.
\<close>

definition MyUniquePtr_default :: "nat \<Rightarrow> 'd \<Rightarrow> ('d, 'v) state \<Rightarrow> ('d, 'v) state" where
  "MyUniquePtr_default this d0 s =
     s\<lparr>owners := (owners s)(this := \<lparr>ptr = nullptr, deleter = d0\<rparr>)\<rparr>"

definition MyUniquePtr_ptr :: "nat \<Rightarrow> pointer \<Rightarrow> 'd \<Rightarrow> ('d, 'v) state \<Rightarrow> ('d, 'v) state" where
  "MyUniquePtr_ptr this p d0 s =
     s\<lparr>owners := (owners s)(this := \<lparr>ptr = p, deleter = d0\<rparr>)\<rparr>"

definition MyUniquePtr_ptr_deleter :: "nat \<Rightarrow> pointer \<Rightarrow> 'd \<Rightarrow> ('d, 'v) state \<Rightarrow> ('d, 'v) state" where
  "MyUniquePtr_ptr_deleter this p d s =
     s\<lparr>owners := (owners s)(this := \<lparr>ptr = p, deleter = d\<rparr>)\<rparr>"

text \<open>
  The move constructor: \<^verbatim>\<open>ptr(other.ptr), deleter(std::move(other.deleter))\<close>, then
  \<^verbatim>\<open>other.ptr = nullptr\<close>. Moving a deleter copies its value.
\<close>

definition MyUniquePtr_move :: "nat \<Rightarrow> nat \<Rightarrow> ('d, 'v) state \<Rightarrow> ('d, 'v) state" where
  "MyUniquePtr_move this other s =
     (let s1 = s\<lparr>owners := (owners s)(this :=
                  \<lparr>ptr = ptr (owners s other), deleter = deleter (owners s other)\<rparr>)\<rparr>
      in set_ptr other nullptr s1)"

subsection \<open>Member functions\<close>

definition get :: "nat \<Rightarrow> ('d, 'v) state \<Rightarrow> pointer" where
  "get this s = ptr (owners s this)"

definition release :: "nat \<Rightarrow> ('d, 'v) state \<Rightarrow> pointer \<times> ('d, 'v) state" where
  "release this s =
     (let temp = ptr (owners s this);
          s1 = set_ptr this nullptr s
      in (temp, s1))"

definition reset :: "('d, 'v) call \<Rightarrow> nat \<Rightarrow> pointer \<Rightarrow> ('d, 'v) state \<Rightarrow> ('d, 'v) state" where
  "reset call this p s =
     (let s1 = (if ptr (owners s this) \<noteq> nullptr
                then invoke call (deleter (owners s this)) (ptr (owners s this)) s
                else s)
      in set_ptr this p s1)"

definition destructor :: "('d, 'v) call \<Rightarrow> nat \<Rightarrow> ('d, 'v) state \<Rightarrow> ('d, 'v) state" where
  "destructor call this s = reset call this nullptr s"

definition operator_star :: "nat \<Rightarrow> ('d, 'v) state \<Rightarrow> 'v option" where
  "operator_star this s = indirection (ptr (owners s this)) (mem s)"

definition operator_arrow :: "nat \<Rightarrow> ('d, 'v) state \<Rightarrow> pointer" where
  "operator_arrow this s = ptr (owners s this)"

text \<open>\<^verbatim>\<open>std::swap(x, y)\<close> on each of the two fields: through a temporary.\<close>

definition swap_member :: "nat \<Rightarrow> nat \<Rightarrow> ('d, 'v) state \<Rightarrow> ('d, 'v) state" where
  "swap_member this other s =
     (let tmp = ptr (owners s this);
          s1 = set_ptr this (ptr (owners s other)) s;
          s2 = set_ptr other tmp s1;
          tmpd = deleter (owners s2 this);
          s3 = set_deleter this (deleter (owners s2 other)) s2
      in set_deleter other tmpd s3)"

definition swap_nonmember :: "nat \<Rightarrow> nat \<Rightarrow> ('d, 'v) state \<Rightarrow> ('d, 'v) state" where
  "swap_nonmember lhs rhs s = swap_member lhs rhs s"

subsection \<open>Releases that destroy owners\<close>

text \<open>
  \<^verbatim>\<open>deleter(ptr)\<close> in full: \<^verbatim>\<open>delete ptr\<close> runs the destructor of the object before
  it frees it, and that destructor destroys the owners the object stores. Such a
  release changes the owners as well as the free store, so here it returns the whole
  state; the call is logged when it returns.
\<close>

type_synonym ('d, 'v) release_fn = "'d \<Rightarrow> pointer \<Rightarrow> ('d, 'v) state \<Rightarrow> ('d, 'v) state option"

definition invoke_nested ::
  "('d, 'v) release_fn \<Rightarrow> 'd \<Rightarrow> pointer \<Rightarrow> ('d, 'v) state \<Rightarrow> ('d, 'v) state option" where
  "invoke_nested rel d p s =
     (case rel d p s of
        None \<Rightarrow> None
      | Some s1 \<Rightarrow> Some (s1\<lparr>calls := calls s1 @ [(d, p)]\<rparr>))"

text \<open>\<^verbatim>\<open>reset\<close> and the destructor, lines 85-90 and 58-60, over such a release.\<close>

definition reset_nested ::
  "('d, 'v) release_fn \<Rightarrow> nat \<Rightarrow> pointer \<Rightarrow> ('d, 'v) state \<Rightarrow> ('d, 'v) state option" where
  "reset_nested rel this p s =
     (case (if ptr (owners s this) \<noteq> nullptr
            then invoke_nested rel (deleter (owners s this)) (ptr (owners s this)) s
            else Some s) of
        None \<Rightarrow> None
      | Some s1 \<Rightarrow> Some (set_ptr this p s1))"

definition destructor_nested ::
  "('d, 'v) release_fn \<Rightarrow> nat \<Rightarrow> ('d, 'v) state \<Rightarrow> ('d, 'v) state option" where
  "destructor_nested rel this s = reset_nested rel this nullptr s"

text \<open>
  The move assignment, lines 47-55: \<^verbatim>\<open>reset()\<close> runs first, and \<^verbatim>\<open>other.ptr\<close> and
  \<^verbatim>\<open>other.deleter\<close> are read from the state that the release left.
\<close>

definition operator_assign ::
  "('d, 'v) release_fn \<Rightarrow> nat \<Rightarrow> nat \<Rightarrow> ('d, 'v) state \<Rightarrow> ('d, 'v) state option" where
  "operator_assign rel this other s =
     (if this \<noteq> other then
        (case reset_nested rel this nullptr s of
           None \<Rightarrow> None
         | Some s1 \<Rightarrow>
             (let s2 = set_ptr this (ptr (owners s1 other)) s1;
                  s3 = set_deleter this (deleter (owners s2 other)) s2
              in Some (set_ptr other nullptr s3)))
      else Some s)"

text \<open>
  \<^verbatim>\<open>DefaultDeleter<T>\<close> for a class \<open>T\<close> that stores owners: \<open>members a\<close> lists the
  owners that are data members of the object at address \<open>a\<close>, in the order its
  destructor destroys them. \<^verbatim>\<open>delete ptr\<close> destroys them, each by the destructor of
  \<^verbatim>\<open>MyUniquePtr\<close>, then frees the object. The first argument bounds the depth of the
  nesting.
\<close>

fun destroy_members ::
  "(nat \<Rightarrow> ('d, 'v) state \<Rightarrow> ('d, 'v) state option) \<Rightarrow> nat list \<Rightarrow> ('d, 'v) state
     \<Rightarrow> ('d, 'v) state option" where
  "destroy_members dtor [] s = Some s"
| "destroy_members dtor (x # xs) s =
     (case dtor x s of
        None \<Rightarrow> None
      | Some s1 \<Rightarrow> destroy_members dtor xs s1)"

primrec DefaultDeleter_call_nested ::
  "nat \<Rightarrow> (nat \<Rightarrow> nat list) \<Rightarrow> (DefaultDeleter, 'v) release_fn" where
  "DefaultDeleter_call_nested 0 = (\<lambda>members d p s. None)"
| "DefaultDeleter_call_nested (Suc n) = (\<lambda>members d p s.
     (case p of
        nullptr \<Rightarrow> Some s
      | Addr a \<Rightarrow>
          (case destroy_members (destructor_nested (DefaultDeleter_call_nested n members))
                  (members a) s of
             None \<Rightarrow> None
           | Some s1 \<Rightarrow> Some (s1\<lparr>mem := delete_expr p (mem s1)\<rparr>))))"

subsection \<open>The free constructors\<close>

text \<open>
  \<^verbatim>\<open>make_unique<T>(args...)\<close> returns \<^verbatim>\<open>MyUniquePtr<T>(new T(args...))\<close>, built at
  \<open>this\<close>; \<open>T\<close> is the constructor of the element type. An exception leaves with
  the state it was thrown in.
\<close>

definition make_unique ::
  "('a \<Rightarrow> 'v) \<Rightarrow> 'a \<Rightarrow> nat \<Rightarrow> (DefaultDeleter, 'v) state
     \<Rightarrow> bad_alloc \<times> (DefaultDeleter, 'v) state + (DefaultDeleter, 'v) state" where
  "make_unique T args this s =
     (case operator_new (T args) (mem s) of
        Inl e \<Rightarrow> Inl (e, s)
      | Inr (p, m) \<Rightarrow> Inr (MyUniquePtr_ptr this p DefaultDeleter (s\<lparr>mem := m\<rparr>)))"

text \<open>The element type \<^verbatim>\<open>int\<close>, and the initialisation \<^verbatim>\<open>int(x)\<close>.\<close>

type_synonym cpp_int = "32 word"

definition int_ctor :: "cpp_int \<Rightarrow> cpp_int" where
  "int_ctor x = x"

text \<open>
  The state on entry to \<^verbatim>\<open>main\<close>: nothing allocated, \<open>n\<close> free cells, nothing
  released, and every owner slot empty.
\<close>

definition start :: "'d \<Rightarrow> nat \<Rightarrow> ('d, 'v) state" where
  "start d0 n =
     \<lparr>owners = (\<lambda>x. \<lparr>ptr = nullptr, deleter = d0\<rparr>),
      mem = \<lparr>cells = Map.empty, brk = 0, avail = n, freed = [], ub = False\<rparr>,
      calls = []\<rparr>"

text \<open>
  A list of two nodes, for a node type with an \<^verbatim>\<open>int\<close> and an owner \<^verbatim>\<open>next\<close> of the
  following node: \<^verbatim>\<open>head\<close> is owner 0 and holds the node at address 0, whose member
  \<^verbatim>\<open>next\<close> is owner 1 and holds the node at address 1, whose member \<^verbatim>\<open>next\<close> is
  owner 2 and holds nothing.
\<close>

definition list2 :: "(DefaultDeleter, cpp_int) state" where
  "list2 =
     \<lparr>owners = (\<lambda>x. \<lparr>ptr = nullptr, deleter = DefaultDeleter\<rparr>)
                  (0 := \<lparr>ptr = Addr 0, deleter = DefaultDeleter\<rparr>,
                   1 := \<lparr>ptr = Addr 1, deleter = DefaultDeleter\<rparr>),
      mem = \<lparr>cells = [0 \<mapsto> Single 10, 1 \<mapsto> Single 20], brk = 2, avail = 0,
             freed = [], ub = False\<rparr>,
      calls = []\<rparr>"

definition list2_members :: "nat \<Rightarrow> nat list" where
  "list2_members a = (if a = 0 then [1] else if a = 1 then [2] else [])"

section \<open>Properties\<close>

subsection \<open>Facts about the field assignments\<close>

lemma owners_set_ptr:
  "owners (set_ptr x p s) = (owners s)(x := (owners s x)\<lparr>ptr := p\<rparr>)"
  by (simp add: set_ptr_def)

lemma mem_set_ptr: "mem (set_ptr x p s) = mem s"
  by (simp add: set_ptr_def)

lemma calls_set_ptr: "calls (set_ptr x p s) = calls s"
  by (simp add: set_ptr_def)

lemma owners_set_deleter:
  "owners (set_deleter x d s) = (owners s)(x := (owners s x)\<lparr>deleter := d\<rparr>)"
  by (simp add: set_deleter_def)

lemma mem_set_deleter: "mem (set_deleter x d s) = mem s"
  by (simp add: set_deleter_def)

lemma calls_set_deleter: "calls (set_deleter x d s) = calls s"
  by (simp add: set_deleter_def)

lemma owners_invoke: "owners (invoke call d p s) = owners s"
  by (simp add: invoke_def)

lemma mem_invoke: "mem (invoke call d p s) = call d p s"
  by (simp add: invoke_def)

lemma calls_invoke: "calls (invoke call d p s) = calls s @ [(d, p)]"
  by (simp add: invoke_def)

lemmas field_simps_state =
  owners_set_ptr mem_set_ptr calls_set_ptr
  owners_set_deleter mem_set_deleter calls_set_deleter
  owners_invoke mem_invoke calls_invoke

lemmas op_defs =
  get_def release_def reset_def destructor_def
  swap_member_def swap_nonmember_def MyUniquePtr_move_def MyUniquePtr_ptr_def
  MyUniquePtr_default_def MyUniquePtr_ptr_deleter_def

lemma set_ptr_same: "ptr (owners s x) = p \<Longrightarrow> set_ptr x p s = s"
proof -
  assume h: "ptr (owners s x) = p"
  have "(owners s x)\<lparr>ptr := p\<rparr> = owners s x"
    using h by (cases "owners s x") simp
  then show ?thesis
    by (simp add: set_ptr_def)
qed

subsection \<open>The release action of each default deleter\<close>

text \<open>
  Destroying an owner whose deleter is \<^verbatim>\<open>DefaultDeleter<T>\<close> runs \<^verbatim>\<open>delete\<close> on the
  handle it holds, and destroying one whose deleter is \<^verbatim>\<open>DefaultDeleter<T[]>\<close> runs
  \<^verbatim>\<open>delete[]\<close>; an absent owner runs neither.
\<close>

lemma freed_destructor_scalar:
  "freed (mem (destructor DefaultDeleter_call x s)) =
     freed (mem s) @ (case get x s of nullptr \<Rightarrow> [] | Addr k \<Rightarrow> [Delete k])"
  by (simp add: op_defs field_simps_state Let_def DefaultDeleter_call_def
      delete_expr_def split: pointer.splits option.splits block.splits)

lemma freed_destructor_array:
  "freed (mem (destructor DefaultDeleter_array_call x s)) =
     freed (mem s) @ (case get x s of nullptr \<Rightarrow> [] | Addr k \<Rightarrow> [DeleteArray k])"
  by (simp add: op_defs field_simps_state Let_def DefaultDeleter_array_call_def
      delete_array_expr_def split: pointer.splits option.splits block.splits)

subsection \<open>Releases that leave the owners alone\<close>

text \<open>
  When the object released stores no owner, the release changes the free store only,
  and the operations over a release that returns the whole state are the ones above.
\<close>

lemmas nested_defs =
  invoke_nested_def reset_nested_def destructor_nested_def operator_assign_def

lemma reset_nested_flat:
  "reset_nested (\<lambda>d p s. Some (s\<lparr>mem := call d p s\<rparr>)) a H s = Some (reset call a H s)"
  by (simp add: nested_defs reset_def invoke_def)

lemma DefaultDeleter_call_nested_flat:
  "DefaultDeleter_call_nested (Suc n) (\<lambda>a. []) d p s =
     Some (s\<lparr>mem := DefaultDeleter_call d p s\<rparr>)"
  by (simp add: DefaultDeleter_call_def delete_expr_def split: pointer.splits)

lemma operator_assign_flat:
  "a \<noteq> b \<Longrightarrow>
     operator_assign (\<lambda>d p s. Some (s\<lparr>mem := call d p s\<rparr>)) a b s =
       Some (set_ptr b nullptr
              (set_deleter a (deleter (owners s b))
                (set_ptr a (get b s) (reset call a nullptr s))))"
  by (simp add: operator_assign_def reset_nested_flat Let_def field_simps_state op_defs)

lemma operator_assign_self: "operator_assign rel a a s = Some s"
  by (simp add: operator_assign_def)

subsection \<open>release\<close>

text \<open>
  Claim C6. For every owner \<open>a\<close>, \<^verbatim>\<open>a.release()\<close> returns the handle \<open>a\<close> holds and
  leaves \<open>a\<close> absent without calling the deleter: the call log and the free store are
  unchanged. A second \<^verbatim>\<open>release()\<close> returns \<^verbatim>\<open>nullptr\<close> and changes nothing, and
  destroying \<open>a\<close> after \<^verbatim>\<open>release()\<close> changes nothing either, so it releases nothing.
\<close>

theorem release_hands_over_without_releasing:
  "fst (release a s) = get a s
   \<and> get a (snd (release a s)) = nullptr
   \<and> calls (snd (release a s)) = calls s
   \<and> mem (snd (release a s)) = mem s
   \<and> release a (snd (release a s)) = (nullptr, snd (release a s))
   \<and> destructor call a (snd (release a s)) = snd (release a s)"
  by (simp add: op_defs field_simps_state Let_def set_ptr_same)

text \<open>
  Claim C10. \<^verbatim>\<open>release()\<close> changes the \<open>ptr\<close> field of its owner and nothing else: the
  stored deleter, every other owner, the free store and the call log stay as they
  were. So after \<^verbatim>\<open>release()\<close> a \<^verbatim>\<open>reset(H)\<close> calls no deleter (the owner is absent),
  and the destruction or the next \<^verbatim>\<open>reset\<close> that follows calls the deleter stored
  before the \<^verbatim>\<open>release()\<close>, on \<open>H\<close>.
\<close>

theorem release_keeps_deleter:
  "owners (snd (release a s)) = (owners s)(a := (owners s a)\<lparr>ptr := nullptr\<rparr>)
   \<and> deleter (owners (snd (release a s)) a) = deleter (owners s a)
   \<and> mem (snd (release a s)) = mem s
   \<and> calls (snd (release a s)) = calls s
   \<and> calls (reset call a H (snd (release a s))) = calls s
   \<and> calls (destructor call a (reset call a H (snd (release a s)))) =
       calls s @ (if H = nullptr then [] else [(deleter (owners s a), H)])
   \<and> calls (reset call a H' (reset call a H (snd (release a s)))) =
       calls s @ (if H = nullptr then [] else [(deleter (owners s a), H)])"
  by (simp add: op_defs field_simps_state Let_def)

subsection \<open>swap\<close>

text \<open>
  Claim C7. For any two owners \<open>a\<close> and \<open>b\<close>, \<^verbatim>\<open>a.swap(b)\<close> exchanges the two owner
  objects field by field: afterwards \<open>a\<close> holds the handle and the deleter \<open>b\<close> had, and
  \<open>b\<close> those \<open>a\<close> had. No deleter is called (the call log is unchanged), and the free
  store is unchanged, so nothing is allocated; the operation is total. The
  non-member \<^verbatim>\<open>swap\<close> is the member one.
\<close>

theorem swap_exchanges_without_releasing:
  "swap_member a b s = s\<lparr>owners := (owners s)(a := owners s b, b := owners s a)\<rparr>
   \<and> get a (swap_member a b s) = get b s
   \<and> deleter (owners (swap_member a b s) a) = deleter (owners s b)
   \<and> get b (swap_member a b s) = get a s
   \<and> deleter (owners (swap_member a b s) b) = deleter (owners s a)
   \<and> calls (swap_member a b s) = calls s
   \<and> mem (swap_member a b s) = mem s
   \<and> swap_nonmember a b s = swap_member a b s"
  apply (cases "a = b")
   apply (simp_all add: op_defs field_simps_state Let_def set_ptr_def set_deleter_def)
  apply (auto simp: fun_eq_iff)
  done

subsection \<open>Destruction\<close>

text \<open>
  Claim C2. Destroying an owner that holds a handle calls its deleter on that handle
  exactly once: the call log grows by that one call, and the free store is what the
  deleter returns. Destroying an owner whose handle is absent calls no deleter and
  leaves the free store alone. In particular an owner built from a raw pointer \<open>p\<close>
  (with or without an explicit deleter) and then destroyed has released \<open>p\<close> once, and
  a default-constructed one has released nothing.
\<close>

theorem destructor_releases_exactly_once:
  "calls (destructor call a s) =
     calls s @ (if get a s = nullptr then [] else [(deleter (owners s a), get a s)])
   \<and> mem (destructor call a s) =
     (if get a s = nullptr then mem s else call (deleter (owners s a)) (get a s) s)
   \<and> length (calls (destructor call a s)) =
     length (calls s) + (if get a s = nullptr then 0 else 1)
   \<and> get a (destructor call a s) = nullptr
   \<and> calls (destructor call a (MyUniquePtr_ptr a p d0 s)) =
     calls s @ (if p = nullptr then [] else [(d0, p)])
   \<and> calls (destructor call a (MyUniquePtr_ptr_deleter a p d s)) =
     calls s @ (if p = nullptr then [] else [(d, p)])
   \<and> calls (destructor call a (MyUniquePtr_default a d0 s)) = calls s"
  by (simp add: op_defs field_simps_state Let_def)

subsection \<open>reset\<close>




text \<open>
  Claim C8. In \<^verbatim>\<open>reset(H2)\<close> on an owner holding a non-absent handle \<open>H1\<close>, the deleter
  runs on the state in which the owner still holds \<open>H1\<close>: the stored handle is
  overwritten only after the deleter has returned. So a deleter that looks at the
  owner during the release (any function \<open>obs\<close> of what \<^verbatim>\<open>get()\<close> returns then) sees
  \<open>H1\<close>, neither \<^verbatim>\<open>nullptr\<close> nor \<open>H2\<close>.
\<close>

theorem reset_releases_before_storing:
  "get a s \<noteq> nullptr \<Longrightarrow>
     calls (reset call a H2 s) = calls s @ [(deleter (owners s a), get a s)]
     \<and> mem (reset call a H2 s) = call (deleter (owners s a)) (get a s) s
     \<and> (\<forall>obs. mem (reset (\<lambda>d p t. obs (get a t) (mem t)) a H2 s) = obs (get a s) (mem s))
     \<and> get a (reset call a H2 s) = H2"
  by (simp add: op_defs field_simps_state Let_def)

theorem reset_releases_before_storing_witness:
  "get 0 (MyUniquePtr_ptr 0 (Addr 1) DefaultDeleter
            (start DefaultDeleter 0 :: (DefaultDeleter, cpp_int) state)) \<noteq> nullptr
   \<and> freed (mem (reset (\<lambda>d p t. case get 0 t of nullptr \<Rightarrow> mem t
                                   | Addr k \<Rightarrow> (mem t)\<lparr>freed := [Delete k]\<rparr>) 0 (Addr 2)
        (MyUniquePtr_ptr 0 (Addr 1) DefaultDeleter
            (start DefaultDeleter 0 :: (DefaultDeleter, cpp_int) state)))) = [Delete 1]"
  using reset_releases_before_storing
    [of 0 "MyUniquePtr_ptr 0 (Addr 1) DefaultDeleter
            (start DefaultDeleter 0 :: (DefaultDeleter, cpp_int) state)"
        "\<lambda>d p t. case get 0 t of nullptr \<Rightarrow> mem t | Addr k \<Rightarrow> (mem t)\<lparr>freed := [Delete k]\<rparr>"
        "Addr 2"]
  by (simp add: get_def MyUniquePtr_ptr_def start_def)

subsection \<open>Move construction and move assignment\<close>

text \<open>
  Claim C5. Move-constructing a new owner \<open>b\<close> from an owner \<open>a\<close> (a different object)
  leaves \<open>a\<close> absent and \<open>b\<close> holding the handle and the deleter \<open>a\<close> had; no deleter is
  called and the free store is unchanged; destroying \<open>a\<close> afterwards changes nothing,
  so it releases nothing. This holds for every \<open>a\<close>, in particular for one whose
  handle is not absent.
\<close>

theorem move_construct_nulls_source:
  "b \<noteq> a \<Longrightarrow>
     get a (MyUniquePtr_move b a s) = nullptr
     \<and> get b (MyUniquePtr_move b a s) = get a s
     \<and> deleter (owners (MyUniquePtr_move b a s) b) = deleter (owners s a)
     \<and> calls (MyUniquePtr_move b a s) = calls s
     \<and> mem (MyUniquePtr_move b a s) = mem s
     \<and> destructor call a (MyUniquePtr_move b a s) = MyUniquePtr_move b a s"
  by (simp add: op_defs field_simps_state Let_def set_ptr_same)

theorem move_construct_nulls_source_witness:
  "(1::nat) \<noteq> 0
   \<and> get 0 (MyUniquePtr_move 1 0
        (MyUniquePtr_ptr 0 (Addr 1) DefaultDeleter
            (start DefaultDeleter 0 :: (DefaultDeleter, cpp_int) state))) = nullptr
   \<and> get 1 (MyUniquePtr_move 1 0
        (MyUniquePtr_ptr 0 (Addr 1) DefaultDeleter
            (start DefaultDeleter 0 :: (DefaultDeleter, cpp_int) state))) = Addr 1
   \<and> calls (destructor DefaultDeleter_call 0 (MyUniquePtr_move 1 0
        (MyUniquePtr_ptr 0 (Addr 1) DefaultDeleter
            (start DefaultDeleter 0 :: (DefaultDeleter, cpp_int) state)))) = []"
  using move_construct_nulls_source
    [of 1 0 "MyUniquePtr_ptr 0 (Addr 1) DefaultDeleter
            (start DefaultDeleter 0 :: (DefaultDeleter, cpp_int) state)" DefaultDeleter_call]
  by (simp add: get_def MyUniquePtr_ptr_def start_def)

text \<open>
  Claim C4 says that for two distinct owners \<open>a\<close> and \<open>b\<close> the move assignment of \<open>b\<close>
  to \<open>a\<close> releases what \<open>a\<close> holds, then gives \<open>a\<close> the handle and the deleter of \<open>b\<close>
  and leaves \<open>b\<close> absent. The code does not do this when \<open>b\<close> is stored in the object
  that \<open>a\<close> owns, as in \<^verbatim>\<open>head = std::move(head->next)\<close> on the list of two nodes.
  Line 49 releases the first node before line 50 reads \<^verbatim>\<open>other.ptr\<close>; the destructor of
  the first node destroys its member \<^verbatim>\<open>next\<close>, which is \<open>b\<close>, and that releases the
  second node as well. When \<^verbatim>\<open>other.ptr\<close> is read, the node that stores \<open>b\<close> is no
  longer allocated, and what \<open>b\<close> last held is \<^verbatim>\<open>nullptr\<close>. So both nodes have been
  released, and \<^verbatim>\<open>head\<close> ends absent instead of holding the second node.
\<close>

theorem move_assign_from_owned_member_releases_both:
  "get 0 list2 = Addr 0
   \<and> get 1 list2 = Addr 1
   \<and> 1 \<in> set (list2_members 0)
   \<and> reset_nested (DefaultDeleter_call_nested 2 list2_members) 0 nullptr list2 \<noteq> None
   \<and> cells (mem (the (reset_nested (DefaultDeleter_call_nested 2 list2_members) 0 nullptr list2))) 0
       = None
   \<and> operator_assign (DefaultDeleter_call_nested 2 list2_members) 0 1 list2 \<noteq> None
   \<and> get 0 (the (operator_assign (DefaultDeleter_call_nested 2 list2_members) 0 1 list2))
       = nullptr
   \<and> calls (the (operator_assign (DefaultDeleter_call_nested 2 list2_members) 0 1 list2))
       = [(DefaultDeleter, Addr 1), (DefaultDeleter, Addr 0)]
   \<and> freed (mem (the (operator_assign (DefaultDeleter_call_nested 2 list2_members) 0 1 list2)))
       = [Delete 1, Delete 0]
   \<and> cells (mem (the (operator_assign (DefaultDeleter_call_nested 2 list2_members) 0 1 list2))) 1
       = None"
  by (simp add: nested_defs numeral_2_eq_2 list2_def list2_members_def get_def set_ptr_def
      set_deleter_def delete_expr_def Let_def)

subsection \<open>The free constructors\<close>

text \<open>
  Claim C9. When a cell is free, \<^verbatim>\<open>make_unique<T>(args...)\<close> returns: it allocates one
  object initialised with \<open>T args\<close> and builds an owner holding its address, with the
  default (single-object) deleter, so that \<^verbatim>\<open>*o\<close> is \<open>T args\<close>; no deleter has been
  called and nothing has been freed. When no cell is free, \<^verbatim>\<open>std::bad_alloc\<close> leaves
  the function with the state exactly as it was: no owner was built and nothing
  stays allocated.
\<close>

theorem make_unique_allocates_or_throws:
  "(1 \<le> avail (mem s) \<longrightarrow>
      (\<exists>s'. make_unique T args this s = Inr s'
        \<and> operator_star this s' = Some (T args)
        \<and> get this s' = Addr (brk (mem s))
        \<and> cells (mem s') (brk (mem s)) = Some (Single (T args))
        \<and> deleter (owners s' this) = DefaultDeleter
        \<and> calls s' = calls s
        \<and> freed (mem s') = freed (mem s)))
   \<and> (avail (mem s) < 1 \<longrightarrow> make_unique T args this s = Inl (bad_alloc, s))"
  by (simp add: op_defs field_simps_state Let_def make_unique_def operator_new_def
      operator_star_def indirection_def)

theorem make_unique_allocates_or_throws_witness:
  "1 \<le> avail (mem (start DefaultDeleter 1 :: (DefaultDeleter, cpp_int) state))
   \<and> (\<exists>s'. make_unique int_ctor 42 0 (start DefaultDeleter 1) = Inr s'
          \<and> operator_star 0 s' = Some (42 :: cpp_int))
   \<and> avail (mem (start DefaultDeleter 0 :: (DefaultDeleter, cpp_int) state)) < 1
   \<and> make_unique int_ctor 42 0 (start DefaultDeleter 0 :: (DefaultDeleter, cpp_int) state)
       = Inl (bad_alloc, start DefaultDeleter 0)"
proof -
  have c1: "1 \<le> avail (mem (start DefaultDeleter 1 :: (DefaultDeleter, cpp_int) state))"
    by (simp add: start_def)
  have c0: "avail (mem (start DefaultDeleter 0 :: (DefaultDeleter, cpp_int) state)) < 1"
    by (simp add: start_def)
  from make_unique_allocates_or_throws
         [of "start DefaultDeleter 1 :: (DefaultDeleter, cpp_int) state" int_ctor 42 0] c1
  have ok: "\<exists>s'. make_unique int_ctor 42 0 (start DefaultDeleter 1) = Inr s'
              \<and> operator_star 0 s' = Some (42 :: cpp_int)"
    by (auto simp: int_ctor_def)
  from make_unique_allocates_or_throws
         [of "start DefaultDeleter 0 :: (DefaultDeleter, cpp_int) state" int_ctor 42 0] c0
  have bad: "make_unique int_ctor 42 0 (start DefaultDeleter 0 :: (DefaultDeleter, cpp_int) state)
       = Inl (bad_alloc, start DefaultDeleter 0)"
    by blast
  show ?thesis
    using c1 ok c0 bad by blast
qed

end
